theory Spec2Isabelle
  imports Complex_Main
begin

section \<open>Data model (water\_management\_agents.py)\<close>

text \<open>
  \<^verbatim>\<open>class AlertLevel(Enum)\<close>: the four members in declaration order.
\<close>

datatype AlertLevel = NORMAL | WARNING | CRITICAL | EMERGENCY

text \<open>
  \<^verbatim>\<open>@dataclass class WaterSensorData\<close>. The float fields are modelled by \<open>real\<close>:
  every finite float is a real number and the comparisons of the classifier against the
  integer literals 85, 95 and 100 are exact on them. \<open>timestamp\<close> is carried as the text
  that \<^verbatim>\<open>isoformat()\<close> yields; \<open>image_path\<close> is \<^verbatim>\<open>Optional[str]\<close>.
\<close>

record WaterSensorData =
  sensor_id :: string
  location :: string
  water_level :: real
  flow_rate :: real
  temperature :: real
  ph_level :: real
  timestamp :: string
  image_path :: "string option"

section \<open>Agent 1: SensorMonitorAgent\<close>

text \<open>\<^verbatim>\<open>self.alert_threshold = 85\<close> in \<^verbatim>\<open>SensorMonitorAgent.__init__\<close>.\<close>

definition alert_threshold :: real where
  "alert_threshold = 85"

text \<open>
  The three consecutive \<^verbatim>\<open>if\<close> statements of \<^verbatim>\<open>analyze_sensor_data\<close>
  (lines 116-123): each later one overwrites the level set by an earlier one.
\<close>

definition classify :: "real \<Rightarrow> AlertLevel" where
  "classify w =
     (let lvl0 = NORMAL;
          lvl1 = (if w > alert_threshold then WARNING else lvl0);
          lvl2 = (if w > 95 then CRITICAL else lvl1);
          lvl3 = (if w \<ge> 100 then EMERGENCY else lvl2)
      in lvl3)"

text \<open>\<^verbatim>\<open>alert_level.value\<close>: the string of each member.\<close>

fun alert_value :: "AlertLevel \<Rightarrow> string" where
  "alert_value NORMAL = ''normal''"
| "alert_value WARNING = ''warning''"
| "alert_value CRITICAL = ''critical''"
| "alert_value EMERGENCY = ''emergency''"

section \<open>Python strings and JSON values\<close>

text \<open>Exceptions that the modelled code can raise.\<close>

datatype py_error =
    KeyError | TypeError | IndexError | JSONDecodeError | BackendError | FileError

text \<open>\<^verbatim>\<open>s.startswith(sep)\<close> and \<^verbatim>\<open>sep in s\<close> on strings.\<close>

definition starts_with :: "string \<Rightarrow> string \<Rightarrow> bool" where
  "starts_with sep s = (take (length sep) s = sep)"

fun contains :: "string \<Rightarrow> string \<Rightarrow> bool" where
  "contains sep [] = (sep = [])"
| "contains sep (c # cs) = (starts_with sep (c # cs) \<or> contains sep cs)"

text \<open>
  The leftmost occurrence of \<open>sep\<close> in \<open>s\<close>: the text before it and the text after it
  (\<^verbatim>\<open>str.partition\<close> without the separator).
\<close>

fun split_at :: "string \<Rightarrow> string \<Rightarrow> (string \<times> string) option" where
  "split_at sep [] = (if sep = [] then Some ([], []) else None)"
| "split_at sep (c # cs) =
     (if starts_with sep (c # cs) then Some ([], drop (length sep) (c # cs))
      else (case split_at sep cs of
              None \<Rightarrow> None
            | Some (a, b) \<Rightarrow> Some (c # a, b)))"

text \<open>
  \<^verbatim>\<open>s.split(sep)\<close>: cut at the non-overlapping occurrences of \<open>sep\<close>, scanning from
  the left. Python raises ValueError for an empty separator; both call sites pass a
  non-empty literal, and the model returns \<open>[s]\<close> there.
\<close>

function split_py :: "string \<Rightarrow> string \<Rightarrow> string list" where
  "split_py sep s =
     (if sep = [] then [s]
      else (case split_at sep s of
              None \<Rightarrow> [s]
            | Some (a, b) \<Rightarrow> a # split_py sep b))"
  by pat_completeness auto
termination
proof (relation "measure (\<lambda>(sep, s). length s)")
  show "wf (measure (\<lambda>(sep :: string, s :: string). length s))"
    by simp
next
  fix sep s :: string and x2 :: "string \<times> string" and a b :: string
  assume ne: "sep \<noteq> []" and sp: "split_at sep s = Some x2" and x2: "(a, b) = x2"
  have "\<And>a b. split_at sep s = Some (a, b) \<Longrightarrow> length b < length s"
  proof (induction s)
    case Nil
    with ne show ?case by simp
  next
    case (Cons c cs)
    show ?case
    proof (cases "starts_with sep (c # cs)")
      case True
      with Cons.prems ne show ?thesis by (cases sep) auto
    next
      case False
      with Cons.prems obtain a' where "split_at sep cs = Some (a', b)"
        by (auto split: option.splits)
      with Cons.IH have "length b < length cs" by blast
      then show ?thesis by simp
    qed
  qed
  with sp x2 have "length b < length s" by metis
  then show "((sep, b), (sep, s)) \<in> measure (\<lambda>(sep, s). length s)"
    by simp
qed

text \<open>\<^verbatim>\<open>xs[i]\<close> for a non-negative literal index: IndexError out of range.\<close>

definition index :: "'a list \<Rightarrow> nat \<Rightarrow> py_error + 'a" where
  "index xs i = (if i < length xs then Inr (xs ! i) else Inl IndexError)"

text \<open>
  What \<^verbatim>\<open>json.loads\<close> returns: \<^verbatim>\<open>None\<close>, \<^verbatim>\<open>bool\<close>, \<^verbatim>\<open>int\<close>,
  \<^verbatim>\<open>float\<close>, \<^verbatim>\<open>str\<close>, \<^verbatim>\<open>list\<close> and \<^verbatim>\<open>dict\<close> (string keys, in
  insertion order; a key is looked up with \<open>map_of\<close>).
\<close>

datatype json =
    JNull
  | JBool bool
  | JInt int
  | JFloat real
  | JStr string
  | JArr "json list"
  | JObj "(string \<times> json) list"

text \<open>\<^verbatim>\<open>a[key]\<close> with a string key: only a dict accepts it.\<close>

fun getitem :: "json \<Rightarrow> string \<Rightarrow> py_error + json" where
  "getitem (JObj kv) k = (case map_of kv k of None \<Rightarrow> Inl KeyError | Some v \<Rightarrow> Inr v)"
| "getitem _ k = Inl TypeError"

text \<open>\<^verbatim>\<open>for a in data\<close>: a list yields its elements, a dict its keys, a string its
  characters; the other values are not iterable.\<close>

fun iterate :: "json \<Rightarrow> py_error + json list" where
  "iterate (JArr xs) = Inr xs"
| "iterate (JObj kv) = Inr (map (\<lambda>(k, v). JStr k) kv)"
| "iterate (JStr s) = Inr (map (\<lambda>c. JStr [c]) s)"
| "iterate _ = Inl TypeError"

text \<open>Sequencing of steps that may raise: the first exception ends the block.\<close>

definition bind_err :: "py_error + 'a \<Rightarrow> ('a \<Rightarrow> py_error + 'b) \<Rightarrow> py_error + 'b" where
  "bind_err m f = (case m of Inl e \<Rightarrow> Inl e | Inr x \<Rightarrow> f x)"

fun traverse :: "('a \<Rightarrow> py_error + 'b) \<Rightarrow> 'a list \<Rightarrow> py_error + 'b list" where
  "traverse f [] = Inr []"
| "traverse f (x # xs) =
     bind_err (f x) (\<lambda>y. bind_err (traverse f xs) (\<lambda>ys. Inr (y # ys)))"

section \<open>Extracting the JSON payload of a backend reply\<close>

text \<open>
  The statement shared by \<^verbatim>\<open>_parse_vision_analysis\<close> (lines 102-103),
  \<^verbatim>\<open>_parse_prediction\<close> (lines 185-186) and \<^verbatim>\<open>_parse_actions\<close> (lines 280-281):
  \<^verbatim>\<open>if "```json" in content: content = content.split("```json")[1].split("```")[0]\<close>.
\<close>

definition extract_json :: "string \<Rightarrow> py_error + string" where
  "extract_json content =
     (if contains ''```json'' content
      then bind_err (index (split_py ''```json'' content) 1)
             (\<lambda>part. index (split_py ''```'' part) 0)
      else Inr content)"

text \<open>
  \<^verbatim>\<open>json.loads\<close> is a library function; it is a parameter \<open>loads\<close> of the parsers,
  \<open>None\<close> standing for the exception it raises on text that is not JSON.
\<close>

definition load_json :: "(string \<Rightarrow> json option) \<Rightarrow> string \<Rightarrow> py_error + json" where
  "load_json loads text = (case loads text of None \<Rightarrow> Inl JSONDecodeError | Some j \<Rightarrow> Inr j)"

section \<open>Agent 4: RedirectionControllerAgent\<close>

text \<open>
  \<^verbatim>\<open>@dataclass class RedirectionAction\<close>. A dataclass does not check its annotations,
  so each field holds whatever JSON value the reply carried.
\<close>

record RedirectionAction =
  valve_id :: json
  action :: json
  percentage :: json
  destination :: json
  priority :: json
  reason :: json

text \<open>\<^verbatim>\<open>a.get("priority", 5)\<close>, evaluated after \<^verbatim>\<open>a["destination"]\<close> has succeeded,
  so \<open>a\<close> is a dict when it is reached.\<close>

fun get_default :: "json \<Rightarrow> string \<Rightarrow> json \<Rightarrow> py_error + json" where
  "get_default (JObj kv) k d = (case map_of kv k of None \<Rightarrow> Inr d | Some v \<Rightarrow> Inr v)"
| "get_default _ k d = Inl TypeError"

text \<open>The constructor call of the list comprehension (lines 288-295), its keyword
  arguments evaluated in source order.\<close>

definition make_action :: "json \<Rightarrow> py_error + RedirectionAction" where
  "make_action a =
     bind_err (getitem a ''valve_id'') (\<lambda>v.
     bind_err (getitem a ''action'') (\<lambda>act.
     bind_err (getitem a ''percentage'') (\<lambda>pct.
     bind_err (getitem a ''destination'') (\<lambda>dst.
     bind_err (get_default a ''priority'' (JInt 5)) (\<lambda>pri.
     bind_err (getitem a ''reason'') (\<lambda>rsn.
       Inr \<lparr>valve_id = v, action = act, percentage = pct, destination = dst,
            priority = pri, reason = rsn\<rparr>))))))"

text \<open>Lines 284-285: \<^verbatim>\<open>isinstance(actions_data, dict) and "actions" in actions_data\<close>.\<close>

fun unwrap_actions :: "json \<Rightarrow> json" where
  "unwrap_actions (JObj kv) =
     (case map_of kv ''actions'' of None \<Rightarrow> JObj kv | Some inner \<Rightarrow> inner)"
| "unwrap_actions j = j"

text \<open>The body of the \<^verbatim>\<open>try\<close> block of \<^verbatim>\<open>_parse_actions\<close> (lines 280-297).\<close>

definition try_parse_actions ::
  "(string \<Rightarrow> json option) \<Rightarrow> string \<Rightarrow> py_error + RedirectionAction list" where
  "try_parse_actions loads content =
     bind_err (extract_json content) (\<lambda>text.
     bind_err (load_json loads text) (\<lambda>actions_data.
     bind_err (iterate (unwrap_actions actions_data)) (\<lambda>elems.
       traverse make_action elems)))"

text \<open>\<^verbatim>\<open>_parse_actions\<close>: \<^verbatim>\<open>except Exception\<close> prints the error and returns the
  empty list.\<close>

definition parse_actions ::
  "(string \<Rightarrow> json option) \<Rightarrow> string \<Rightarrow> RedirectionAction list" where
  "parse_actions loads content =
     (case try_parse_actions loads content of Inl e \<Rightarrow> [] | Inr actions \<Rightarrow> actions)"

section \<open>Agent 2: PredictionAgent\<close>

text \<open>
  \<^verbatim>\<open>_parse_prediction\<close>. The \<^verbatim>\<open>except\<close> branch reads the variable \<^verbatim>\<open>content\<close>,
  which the \<^verbatim>\<open>try\<close> block has already replaced by the extracted text when the reply
  holds a fence.
\<close>

definition parse_prediction :: "(string \<Rightarrow> json option) \<Rightarrow> string \<Rightarrow> json" where
  "parse_prediction loads content =
     (case extract_json content of
        Inl e \<Rightarrow> JObj [(''error'', JStr ''parsing_failed''), (''raw'', JStr content)]
      | Inr text \<Rightarrow>
          (case load_json loads text of
             Inl e \<Rightarrow> JObj [(''error'', JStr ''parsing_failed''), (''raw'', JStr text)]
           | Inr j \<Rightarrow> j))"

text \<open>\<^verbatim>\<open>_parse_vision_analysis\<close> of the sensor agent (lines 98-111), the same shape
  with its own fallback dictionary.\<close>

definition vision_fallback :: "string \<Rightarrow> json" where
  "vision_fallback analysis =
     JObj [(''water_level'', JInt 0), (''overflow_detected'', JBool False),
           (''urgency'', JStr ''normal''), (''raw_analysis'', JStr analysis)]"

definition parse_vision_analysis :: "(string \<Rightarrow> json option) \<Rightarrow> string \<Rightarrow> json" where
  "parse_vision_analysis loads analysis =
     (case extract_json analysis of
        Inl e \<Rightarrow> vision_fallback analysis
      | Inr text \<Rightarrow>
          (case load_json loads text of
             Inl e \<Rightarrow> vision_fallback text
           | Inr j \<Rightarrow> j))"

section \<open>Collaborators and effects\<close>

text \<open>
  The dictionary built by \<^verbatim>\<open>analyze_sensor_data\<close> (lines 125-133), one field per
  key; \<open>a_alert_level\<close> holds \<^verbatim>\<open>alert_level.value\<close>. The key
  \<^verbatim>\<open>"vision_analysis"\<close> exists only when an image was analysed.
\<close>

record SensorAnalysis =
  a_sensor_id :: string
  a_location :: string
  a_alert_level :: string
  a_water_level :: real
  a_flow_rate :: real
  a_requires_action :: bool
  a_timestamp :: string
  a_vision_analysis :: "json option"

text \<open>
  The data each prompt is built from. The prompt texts themselves (f-strings around
  \<^verbatim>\<open>json.dumps\<close> of these values) are not modelled.
\<close>

datatype prompt =
    VisionPrompt string
  | PredictionPrompt real real string json
  | PlanningPrompt SensorAnalysis json "json list"

text \<open>
  What a run reads from outside: \<^verbatim>\<open>json.loads\<close>; the reply text of
  \<^verbatim>\<open>groq_client.chat.completions.create(model=..., messages=...)\<close>, \<open>None\<close> when the
  call raises; and whether \<^verbatim>\<open>open(image_path, "rb")\<close> succeeds.
\<close>

record env =
  loads :: "string \<Rightarrow> json option"
  backend :: "string \<Rightarrow> prompt \<Rightarrow> string option"
  image_readable :: "string \<Rightarrow> bool"

text \<open>
  The calls a run makes to its collaborators, in order. Console output
  (\<^verbatim>\<open>print\<close>) and the \<^verbatim>\<open>datetime.now()\<close> stamps put into commands and records
  are left out.
\<close>

datatype event =
    ImageRead string
  | BackendCall string prompt
  | WeatherFetch string
  | ValveCommand json json json
  | Notification SensorAnalysis "string list"
  | DatabaseUpdate string "RedirectionAction list" string

type_synonym 'a io = "event list \<times> (py_error + 'a)"

definition ret :: "'a \<Rightarrow> 'a io" where
  "ret x = ([], Inr x)"

definition emit :: "event \<Rightarrow> unit io" where
  "emit e = ([e], Inr ())"

definition raise :: "py_error \<Rightarrow> 'a io" where
  "raise e = ([], Inl e)"

definition lift :: "py_error + 'a \<Rightarrow> 'a io" where
  "lift r = ([], r)"

definition bind_io :: "'a io \<Rightarrow> ('a \<Rightarrow> 'b io) \<Rightarrow> 'b io" where
  "bind_io m f =
     (case m of
        (t, Inl e) \<Rightarrow> (t, Inl e)
      | (t, Inr x) \<Rightarrow> (case f x of (t', r) \<Rightarrow> (t @ t', r)))"

text \<open>One call of the reasoning backend with the given model identifier.\<close>

definition call_backend :: "env \<Rightarrow> string \<Rightarrow> prompt \<Rightarrow> string io" where
  "call_backend e model p =
     bind_io (emit (BackendCall model p)) (\<lambda>_.
       (case backend e model p of None \<Rightarrow> raise BackendError | Some reply \<Rightarrow> ret reply))"

text \<open>\<^verbatim>\<open>SensorMonitorAgent.process_camera_feed\<close> (lines 58-96).\<close>

definition process_camera_feed :: "env \<Rightarrow> string \<Rightarrow> json io" where
  "process_camera_feed e path =
     bind_io (emit (ImageRead path)) (\<lambda>_.
       if \<not> image_readable e path then raise FileError
       else bind_io (call_backend e ''llama-4-scout-preview'' (VisionPrompt path)) (\<lambda>analysis.
              ret (parse_vision_analysis (loads e) analysis)))"

text \<open>
  \<^verbatim>\<open>SensorMonitorAgent.analyze_sensor_data\<close> (lines 113-140).
  \<^verbatim>\<open>if sensor_data.image_path:\<close> is false for \<^verbatim>\<open>None\<close> and for the empty string.
\<close>

definition analyze_sensor_data :: "env \<Rightarrow> WaterSensorData \<Rightarrow> SensorAnalysis io" where
  "analyze_sensor_data e sensor_data =
     (let alert_level = classify (water_level sensor_data);
          analysis = \<lparr>a_sensor_id = sensor_id sensor_data,
                      a_location = location sensor_data,
                      a_alert_level = alert_value alert_level,
                      a_water_level = water_level sensor_data,
                      a_flow_rate = flow_rate sensor_data,
                      a_requires_action = (alert_level \<noteq> NORMAL),
                      a_timestamp = timestamp sensor_data,
                      a_vision_analysis = None\<rparr>
      in (case image_path sensor_data of
            None \<Rightarrow> ret analysis
          | Some path \<Rightarrow>
              if path = [] then ret analysis
              else bind_io (process_camera_feed e path) (\<lambda>vision_data.
                     ret (analysis\<lparr>a_vision_analysis := Some vision_data\<rparr>))))"

section \<open>Agent 5: MCPIntegrationAgent\<close>

text \<open>\<^verbatim>\<open>get_weather_forecast\<close> (lines 311-320): the simulated response.\<close>

definition weather_forecast :: "string \<Rightarrow> json" where
  "weather_forecast loc =
     JObj [(''location'', JStr loc),
           (''rainfall_forecast_mm'', JArr [JInt 5, JInt 12, JInt 8, JInt 2, JInt 0, JInt 0]),
           (''temperature'', JInt 28),
           (''humidity'', JInt 75),
           (''forecast_period'', JStr ''next_24h'')]"

definition get_weather_forecast :: "string \<Rightarrow> json io" where
  "get_weather_forecast loc =
     bind_io (emit (WeatherFetch loc)) (\<lambda>_. ret (weather_forecast loc))"

text \<open>\<^verbatim>\<open>control_valve\<close> (lines 322-335): builds the command and reports success;
  there is no state kept between calls.\<close>

definition control_valve :: "json \<Rightarrow> json \<Rightarrow> json \<Rightarrow> unit io" where
  "control_valve v act pct = emit (ValveCommand v act pct)"

section \<open>Agent 2 and Agent 4: the backend calls\<close>

text \<open>\<^verbatim>\<open>PredictionAgent.predict_overflow\<close> (lines 150-180).\<close>

definition predict_overflow :: "env \<Rightarrow> SensorAnalysis \<Rightarrow> json \<Rightarrow> json io" where
  "predict_overflow e current_data weather_data =
     bind_io (call_backend e ''llama-3.1-8b-instant''
                (PredictionPrompt (a_water_level current_data) (a_flow_rate current_data)
                   (a_location current_data) weather_data)) (\<lambda>content.
       ret (parse_prediction (loads e) content))"

text \<open>\<^verbatim>\<open>RedirectionControllerAgent.calculate_redirection\<close> (lines 236-275).\<close>

definition calculate_redirection ::
  "env \<Rightarrow> SensorAnalysis \<Rightarrow> json \<Rightarrow> json list \<Rightarrow> RedirectionAction list io" where
  "calculate_redirection e sensor_analysis prediction available_destinations =
     bind_io (call_backend e ''llama-3.3-70b-versatile''
                (PlanningPrompt sensor_analysis prediction available_destinations)) (\<lambda>content.
       ret (parse_actions (loads e) content))"

section \<open>Agent 6: OrchestratorAgent\<close>

text \<open>
  Lines 381-383: \<^verbatim>\<open>if "overflow_probability_6h" in prediction:\<close> followed by the two
  subscripts. \<^verbatim>\<open>in\<close> is key membership on a dict, element membership on a list,
  substring test on a string, and a TypeError on the other values.
\<close>

fun member_of :: "string \<Rightarrow> json \<Rightarrow> py_error + bool" where
  "member_of k (JObj kv) = Inr (map_of kv k \<noteq> None)"
| "member_of k (JArr xs) = Inr (List.member xs (JStr k))"
| "member_of k (JStr s) = Inr (contains k s)"
| "member_of k _ = Inl TypeError"

definition report_prediction :: "json \<Rightarrow> py_error + unit" where
  "report_prediction prediction =
     bind_err (member_of ''overflow_probability_6h'' prediction) (\<lambda>present.
       if present
       then bind_err (getitem prediction ''overflow_probability_6h'') (\<lambda>_.
            bind_err (getitem prediction ''overflow_probability_12h'') (\<lambda>_. Inr ()))
       else Inr ())"

text \<open>Lines 389-393.\<close>

definition available_destinations :: "json list" where
  "available_destinations =
     [JObj [(''id'', JStr ''tank_drinking_1''), (''type'', JStr ''drinking_water''),
            (''capacity_remaining'', JInt 5000)],
      JObj [(''id'', JStr ''reservoir_agri_2''), (''type'', JStr ''agriculture''),
            (''capacity_remaining'', JInt 15000)],
      JObj [(''id'', JStr ''recharge_pit_3''), (''type'', JStr ''groundwater''),
            (''capacity_remaining'', JInt 8000)]]"

text \<open>Lines 401-407: one \<^verbatim>\<open>control_valve\<close> call per action, in list order.\<close>

fun execute_actions :: "RedirectionAction list \<Rightarrow> unit io" where
  "execute_actions [] = ret ()"
| "execute_actions (a # as) =
     bind_io (control_valve (valve_id a) (action a) (percentage a)) (\<lambda>_.
       execute_actions as)"

text \<open>The dictionary returned at lines 430-434.\<close>

record WorkflowResult =
  sensor_analysis :: SensorAnalysis
  prediction :: json
  actions_taken :: "RedirectionAction list"

text \<open>\<^verbatim>\<open>OrchestratorAgent.process_overflow_scenario\<close> (lines 360-434).\<close>

definition process_overflow_scenario :: "env \<Rightarrow> WaterSensorData \<Rightarrow> WorkflowResult io" where
  "process_overflow_scenario e sensor_data =
     bind_io (analyze_sensor_data e sensor_data) (\<lambda>analysis.
     bind_io (get_weather_forecast (location sensor_data)) (\<lambda>weather_data.
     bind_io (predict_overflow e analysis weather_data) (\<lambda>pred.
     bind_io (lift (report_prediction pred)) (\<lambda>_.
       if a_requires_action analysis
       then bind_io (calculate_redirection e analysis pred available_destinations) (\<lambda>actions.
            bind_io (execute_actions actions) (\<lambda>_.
            bind_io (emit (Notification analysis [''water_dept'', ''field_ops''])) (\<lambda>_.
            bind_io (emit (DatabaseUpdate (sensor_id sensor_data) actions
                             (a_alert_level analysis))) (\<lambda>_.
              ret \<lparr>sensor_analysis = analysis, prediction = pred,
                   actions_taken = actions\<rparr>))))
       else ret \<lparr>sensor_analysis = analysis, prediction = pred, actions_taken = []\<rparr>))))"

section \<open>Observations on traces and sample inputs\<close>

text \<open>The valve commands and the backend calls of a trace.\<close>

definition is_valve_command :: "event \<Rightarrow> bool" where
  "is_valve_command ev = (case ev of ValveCommand v a p \<Rightarrow> True | _ \<Rightarrow> False)"

definition is_backend_call :: "event \<Rightarrow> bool" where
  "is_backend_call ev = (case ev of BackendCall m p \<Rightarrow> True | _ \<Rightarrow> False)"

text \<open>The command that \<^verbatim>\<open>control_valve\<close> receives for an action.\<close>

definition command_of :: "RedirectionAction \<Rightarrow> event" where
  "command_of a = ValveCommand (valve_id a) (action a) (percentage a)"

text \<open>An action that appears twice in a plan.\<close>

definition open_v1 :: RedirectionAction where
  "open_v1 = \<lparr>valve_id = JStr ''V1'', action = JStr ''open'', percentage = JInt 100,
              destination = JStr ''tank_drinking_1'', priority = JInt 1,
              reason = JStr ''relieve tank''\<rparr>"

text \<open>The keys that the comprehension of \<^verbatim>\<open>_parse_actions\<close> subscripts, and the
  action it builds from a dict that has them all: every field is the value found under its
  key, the priority is 5 when the key is absent.\<close>

definition required_keys :: "string list" where
  "required_keys = [''valve_id'', ''action'', ''percentage'', ''destination'', ''reason'']"

definition has_required :: "(string \<times> json) list \<Rightarrow> bool" where
  "has_required kv = list_all (\<lambda>k. map_of kv k \<noteq> None) required_keys"

definition field :: "(string \<times> json) list \<Rightarrow> string \<Rightarrow> json" where
  "field kv k = (case map_of kv k of None \<Rightarrow> JNull | Some v \<Rightarrow> v)"

definition action_of_fields :: "(string \<times> json) list \<Rightarrow> RedirectionAction" where
  "action_of_fields kv =
     \<lparr>valve_id = field kv ''valve_id'', action = field kv ''action'',
      percentage = field kv ''percentage'', destination = field kv ''destination'',
      priority = (case map_of kv ''priority'' of None \<Rightarrow> JInt 5 | Some p \<Rightarrow> p),
      reason = field kv ''reason''\<rparr>"

text \<open>Sample replies, with what \<^verbatim>\<open>json.loads\<close> returns for each of them, and
  sample environments and readings.\<close>

definition plain_reply :: string where
  "plain_reply = ''I am unable to produce a plan.''"

definition plan_reply :: string where
  \<open>plan_reply = ''[{"valve_id": "V1", "action": "close", "percentage": 150, "destination": "moon_base", "priority": 9, "reason": "drain"}, {"valve_id": "V1", "action": "open", "percentage": -5, "destination": "tank_drinking_1", "priority": 1, "reason": "fill"}]''\<close>

definition plan_fields :: "(string \<times> json) list list" where
  "plan_fields =
     [[(''valve_id'', JStr ''V1''), (''action'', JStr ''close''), (''percentage'', JInt 150),
       (''destination'', JStr ''moon_base''), (''priority'', JInt 9), (''reason'', JStr ''drain'')],
      [(''valve_id'', JStr ''V1''), (''action'', JStr ''open''), (''percentage'', JInt (- 5)),
       (''destination'', JStr ''tank_drinking_1''), (''priority'', JInt 1),
       (''reason'', JStr ''fill'')]]"

definition partial_reply :: string where
  \<open>partial_reply = ''[{"valve_id": "V1", "action": "open", "percentage": 100, "destination": "tank_drinking_1", "reason": "fill"}, {"valve_id": "V2", "action": "open", "percentage": 100, "destination": "reservoir_agri_2"}]''\<close>

definition partial_fields :: "(string \<times> json) list list" where
  "partial_fields =
     [[(''valve_id'', JStr ''V1''), (''action'', JStr ''open''), (''percentage'', JInt 100),
       (''destination'', JStr ''tank_drinking_1''), (''reason'', JStr ''fill'')],
      [(''valve_id'', JStr ''V2''), (''action'', JStr ''open''), (''percentage'', JInt 100),
       (''destination'', JStr ''reservoir_agri_2'')]]"

definition single_reply :: string where
  \<open>single_reply = ''[{"valve_id": "V1", "action": "open", "percentage": 100, "destination": "tank_drinking_1", "reason": "fill"}]''\<close>

definition wrapped_reply :: string where
  \<open>wrapped_reply = ''{"actions": [{"valve_id": "V1", "action": "open", "percentage": 100, "destination": "tank_drinking_1", "reason": "fill"}]}''\<close>

definition pair_reply :: string where
  \<open>pair_reply = ''[{"valve_id": "V1", "action": "open", "percentage": 100, "destination": "tank_drinking_1", "reason": "fill"}, {"valve_id": "V2", "action": "partial", "percentage": 40, "destination": "reservoir_agri_2", "reason": "store"}]''\<close>

definition pair_fields :: "(string \<times> json) list list" where
  "pair_fields =
     [[(''valve_id'', JStr ''V1''), (''action'', JStr ''open''), (''percentage'', JInt 100),
       (''destination'', JStr ''tank_drinking_1''), (''reason'', JStr ''fill'')],
      [(''valve_id'', JStr ''V2''), (''action'', JStr ''partial''), (''percentage'', JInt 40),
       (''destination'', JStr ''reservoir_agri_2''), (''reason'', JStr ''store'')]]"

definition sample_loads :: "string \<Rightarrow> json option" where
  "sample_loads text =
     (if text = plan_reply then Some (JArr (map JObj plan_fields))
      else if text = partial_reply then Some (JArr (map JObj partial_fields))
      else if text = single_reply then Some (JArr [JObj (hd partial_fields)])
      else if text = wrapped_reply
        then Some (JObj [(''actions'', JArr [JObj (hd partial_fields)])])
      else if text = pair_reply then Some (JArr (map JObj pair_fields))
      else if text = ''[]'' then Some (JArr [])
      else None)"

definition sample_backend :: "string \<Rightarrow> prompt \<Rightarrow> string option" where
  "sample_backend model p =
     (if model = ''llama-3.3-70b-versatile'' then Some plan_reply else Some plain_reply)"

definition plain_env :: env where
  "plain_env = \<lparr>loads = sample_loads, backend = (\<lambda>model p. Some plain_reply),
                image_readable = (\<lambda>path. False)\<rparr>"

definition plan_env :: env where
  "plan_env = \<lparr>loads = sample_loads, backend = sample_backend,
               image_readable = (\<lambda>path. False)\<rparr>"

definition reading :: "real \<Rightarrow> WaterSensorData" where
  "reading w = \<lparr>sensor_id = ''WS_TANK_001'', location = ''Community Tank'',
                water_level = w, flow_rate = 450, temperature = 26.5, ph_level = 7.2,
                timestamp = ''2025-01-01T00:00:00'', image_path = None\<rparr>"

definition sample_analysis :: SensorAnalysis where
  "sample_analysis = \<lparr>a_sensor_id = ''WS_TANK_001'', a_location = ''Community Tank'',
     a_alert_level = ''critical'', a_water_level = 97, a_flow_rate = 450,
     a_requires_action = True, a_timestamp = ''2025-01-01T00:00:00'',
     a_vision_analysis = None\<rparr>"


text \<open>The backend calls of the prediction and planning steps of a run.\<close>

definition prediction_call :: "WaterSensorData \<Rightarrow> event" where
  "prediction_call sd =
     BackendCall ''llama-3.1-8b-instant''
       (PredictionPrompt (water_level sd) (flow_rate sd) (location sd)
          (weather_forecast (location sd)))"

definition planning_call :: "SensorAnalysis \<Rightarrow> json \<Rightarrow> event" where
  "planning_call a pred =
     BackendCall ''llama-3.3-70b-versatile'' (PlanningPrompt a pred available_destinations)"


text \<open>The text of \<open>s\<close> before the leftmost occurrence of \<open>sep\<close>, all of \<open>s\<close> when there
  is none; and a sample reply with a fenced block.\<close>

definition before :: "string \<Rightarrow> string \<Rightarrow> string" where
  "before sep s = (case split_at sep s of None \<Rightarrow> s | Some (a, b) \<Rightarrow> a)"


definition fenced_reply :: string where
  "fenced_reply = ''Plan: ```json[]``` done''"


section \<open>Classification\<close>

lemma bind_err_simps [simp]:
  "bind_err (Inl e) f = Inl e" "bind_err (Inr x) f = f x"
  by (simp_all add: bind_err_def)

text \<open>
  C2, as the code has it: a level up to and including 85 is Normal (the threshold must
  be exceeded), a level strictly between 85 and 95 is Warning, a level above 95 and
  below 100 is Critical, and a level of 100 or more is Emergency. The level 95 itself
  is left out of the statement.
\<close>

theorem classify_tiers:
  "(w \<le> 85 \<longrightarrow> classify w = NORMAL) \<and>
   (85 < w \<and> w < 95 \<longrightarrow> classify w = WARNING) \<and>
   (95 < w \<and> w < 100 \<longrightarrow> classify w = CRITICAL) \<and>
   (100 \<le> w \<longrightarrow> classify w = EMERGENCY)"
  by (simp add: classify_def alert_threshold_def)

theorem classify_tiers_witness:
  "classify 30 = NORMAL \<and> classify 90 = WARNING \<and> classify 97 = CRITICAL \<and>
   classify 100 = EMERGENCY"
  using classify_tiers [of 30] classify_tiers [of 90] classify_tiers [of 97]
    classify_tiers [of 100]
  by simp

text \<open>C2 as stated fails at the boundary 85, which the code classifies Normal.\<close>

theorem classify_85_counterexample:
  "classify 85 = NORMAL \<and> classify 85 \<noteq> WARNING"
  by (simp add: classify_def alert_threshold_def)

section \<open>Actuation\<close>

lemma execute_actions_trace:
  "execute_actions as = (map command_of as, Inr ())"
  by (induction as)
     (simp_all add: ret_def bind_io_def control_valve_def emit_def command_of_def)

text \<open>
  C7, as the code has it: executing a list of actions sends one valve command per list
  element, in list order, and never fails; an action repeated in the list is sent again.
\<close>

theorem execute_actions_one_command_each:
  "fst (execute_actions as) = map command_of as \<and>
   snd (execute_actions as) = Inr () \<and>
   length (filter is_valve_command (fst (execute_actions as))) = length as"
  by (simp add: execute_actions_trace command_of_def is_valve_command_def)

text \<open>C7 as stated fails: the same action twice gives two outward commands.\<close>

theorem execute_duplicate_counterexample:
  "fst (execute_actions [open_v1, open_v1]) =
     [ValveCommand (JStr ''V1'') (JStr ''open'') (JInt 100),
      ValveCommand (JStr ''V1'') (JStr ''open'') (JInt 100)]"
  by (simp add: execute_actions_trace command_of_def open_v1_def)

section \<open>Parsing the planning reply\<close>

lemma make_action_ok:
  "has_required kv \<Longrightarrow> make_action (JObj kv) = Inr (action_of_fields kv)"
  by (auto simp: has_required_def required_keys_def make_action_def action_of_fields_def field_def
      split: option.splits)


lemma traverse_ok:
  "\<forall>kv \<in> set kvs. has_required kv \<Longrightarrow>
   traverse make_action (map JObj kvs) = Inr (map action_of_fields kvs)"
  by (induction kvs) (simp_all add: make_action_ok)


lemma parse_actions_array:
  "extract_json content = Inr payload \<Longrightarrow> ld payload = Some (JArr elems) \<Longrightarrow>
   parse_actions ld content =
     (case traverse make_action elems of Inl e \<Rightarrow> [] | Inr as \<Rightarrow> as)"
  by (simp add: parse_actions_def try_parse_actions_def load_json_def)


lemma parse_actions_copy:
  "extract_json content = Inr payload \<Longrightarrow> ld payload = Some (JArr (map JObj kvs)) \<Longrightarrow>
   \<forall>kv \<in> set kvs. has_required kv \<Longrightarrow>
   parse_actions ld content = map action_of_fields kvs"
  by (simp add: parse_actions_array traverse_ok)


lemma parse_actions_default_priority:
  assumes "extract_json content = Inr payload" "ld payload = Some (JArr [JObj kv])"
    "has_required kv" "map_of kv ''priority'' = None"
  shows "map priority (parse_actions ld content) = [JInt 5]"
proof -
  have "parse_actions ld content = map action_of_fields [kv]"
    using parse_actions_copy [of content payload ld "[kv]"] assms(1-3) by simp
  then show ?thesis
    using assms(4) by (simp add: action_of_fields_def)
qed



lemma no_backtick_no_fence:
  "CHR 0x60 \<notin> set s \<Longrightarrow> \<not> contains (CHR 0x60 # sep) s"
  by (induction s) (auto simp: starts_with_def)


lemma no_fence_samples:
  "\<not> contains ''```json'' plain_reply" "\<not> contains ''```json'' plan_reply"
  "\<not> contains ''```json'' partial_reply" "\<not> contains ''```json'' single_reply"
  "\<not> contains ''```json'' wrapped_reply" "\<not> contains ''```json'' pair_reply"
  by (rule no_backtick_no_fence,
      simp add: plain_reply_def plan_reply_def partial_reply_def single_reply_def
        wrapped_reply_def pair_reply_def)+

lemma extract_samples:
  "extract_json plain_reply = Inr plain_reply" "extract_json plan_reply = Inr plan_reply"
  "extract_json partial_reply = Inr partial_reply"
  "extract_json single_reply = Inr single_reply"
  "extract_json wrapped_reply = Inr wrapped_reply" "extract_json pair_reply = Inr pair_reply"
  by (simp_all add: extract_json_def no_fence_samples)

lemma sample_loads_eval:
  "sample_loads plan_reply = Some (JArr (map JObj plan_fields))"
  "sample_loads partial_reply = Some (JArr (map JObj partial_fields))"
  "sample_loads single_reply = Some (JArr [JObj (hd partial_fields)])"
  "sample_loads wrapped_reply = Some (JObj [(''actions'', JArr [JObj (hd partial_fields)])])"
  "sample_loads plain_reply = None"
  "sample_loads pair_reply = Some (JArr (map JObj pair_fields))"
  by (simp_all add: sample_loads_def plan_reply_def partial_reply_def single_reply_def
      wrapped_reply_def plain_reply_def pair_reply_def)

lemma has_required_samples:
  "\<forall>kv \<in> set plan_fields. has_required kv" "has_required (hd partial_fields)"
  "\<not> has_required (partial_fields ! 1)"
  by (simp_all add: plan_fields_def partial_fields_def has_required_def required_keys_def)


lemma calculate_redirection_eq:
  "backend e ''llama-3.3-70b-versatile'' (PlanningPrompt sa pred dests) = Some content \<Longrightarrow>
   calculate_redirection e sa pred dests =
     ([BackendCall ''llama-3.3-70b-versatile'' (PlanningPrompt sa pred dests)],
      Inr (parse_actions (loads e) content))"
  by (simp add: calculate_redirection_def call_backend_def bind_io_def emit_def ret_def)

text \<open>
  C3, as the code has it: when the planning reply parses as a JSON array of dicts that
  each carry valve_id, action, percentage, destination and reason, the planner calls the
  backend once and returns one action per array element, in the order of the reply, every
  field copied unchanged (priority 5 when absent). No percentage is clamped or coerced,
  no destination is checked, no duplicate valve is dropped and nothing is sorted.
\<close>

theorem planner_returns_reply_verbatim:
  assumes "backend e ''llama-3.3-70b-versatile'' (PlanningPrompt sa pred dests) = Some content"
    and "extract_json content = Inr payload"
    and "loads e payload = Some (JArr (map JObj kvs))"
    and "\<forall>kv \<in> set kvs. has_required kv"
  shows "calculate_redirection e sa pred dests =
     ([BackendCall ''llama-3.3-70b-versatile'' (PlanningPrompt sa pred dests)],
      Inr (map action_of_fields kvs))"
  using assms calculate_redirection_eq [of e sa pred dests content]
    parse_actions_copy [of content payload "loads e" kvs]
  by simp

lemma plan_env_eval:
  "backend plan_env ''llama-3.3-70b-versatile'' p = Some plan_reply"
  "loads plan_env = sample_loads"
  by (simp_all add: plan_env_def sample_backend_def)

theorem planner_returns_reply_verbatim_witness:
  "calculate_redirection plan_env sample_analysis JNull available_destinations =
     ([BackendCall ''llama-3.3-70b-versatile''
         (PlanningPrompt sample_analysis JNull available_destinations)],
      Inr (map action_of_fields plan_fields))"
  using planner_returns_reply_verbatim [of plan_env sample_analysis JNull available_destinations plan_reply plan_reply
              plan_fields]
  by (simp add: plan_env_eval extract_samples sample_loads_eval has_required_samples)

text \<open>C3 as stated fails: a reply with a close action at 150 percent towards an unknown
  destination and a second entry for the same valve with a lower priority number comes
  back unchanged and in reply order.\<close>

theorem planner_unvalidated_counterexample:
  "snd (calculate_redirection plan_env sample_analysis JNull available_destinations) =
     Inr [\<lparr>valve_id = JStr ''V1'', action = JStr ''close'', percentage = JInt 150,
           destination = JStr ''moon_base'', priority = JInt 9, reason = JStr ''drain''\<rparr>,
          \<lparr>valve_id = JStr ''V1'', action = JStr ''open'', percentage = JInt (- 5),
           destination = JStr ''tank_drinking_1'', priority = JInt 1,
           reason = JStr ''fill''\<rparr>]"
  using calculate_redirection_eq [of plan_env sample_analysis JNull available_destinations
          plan_reply]
    parse_actions_copy [of plan_reply plan_reply sample_loads plan_fields]
  by (simp add: plan_env_eval extract_samples sample_loads_eval has_required_samples)
     (simp add: plan_fields_def action_of_fields_def field_def)

section \<open>The workflow\<close>

lemma bind_io_Inr:
  assumes "bind_io m f = (t, Inr r)"
  obtains t1 x t2 where "m = (t1, Inr x)" "f x = (t2, Inr r)" "t = t1 @ t2"
proof (cases m)
  case (Pair t1 res)
  show ?thesis
  proof (cases res)
    case (Inl e)
    with Pair assms show ?thesis by (simp add: bind_io_def)
  next
    case (Inr x)
    obtain t2 r2 where fx: "f x = (t2, r2)" by (cases "f x")
    with Pair Inr assms have "t = t1 @ t2" "r2 = Inr r" by (simp_all add: bind_io_def)
    with Pair Inr fx that show ?thesis by simp
  qed
qed

lemma call_backend_Inr:
  assumes "call_backend e model p = (t, Inr reply)"
  shows "t = [BackendCall model p] \<and> backend e model p = Some reply"
  using assms
  by (cases "backend e model p")
     (simp_all add: call_backend_def bind_io_def emit_def raise_def ret_def)

lemma call_backend_trace:
  "fst (call_backend e model p) = [BackendCall model p]"
  by (cases "backend e model p")
     (simp_all add: call_backend_def bind_io_def emit_def raise_def ret_def)

lemma predict_overflow_eq:
  "backend e ''llama-3.1-8b-instant''
     (PredictionPrompt (a_water_level cd) (a_flow_rate cd) (a_location cd) w) = Some content \<Longrightarrow>
   predict_overflow e cd w =
     ([BackendCall ''llama-3.1-8b-instant''
         (PredictionPrompt (a_water_level cd) (a_flow_rate cd) (a_location cd) w)],
      Inr (parse_prediction (loads e) content))"
  by (simp add: predict_overflow_def call_backend_def bind_io_def emit_def ret_def)

lemma predict_overflow_trace:
  "fst (predict_overflow e cd w) =
     [BackendCall ''llama-3.1-8b-instant''
        (PredictionPrompt (a_water_level cd) (a_flow_rate cd) (a_location cd) w)]"
  by (cases "backend e ''llama-3.1-8b-instant''
        (PredictionPrompt (a_water_level cd) (a_flow_rate cd) (a_location cd) w)")
     (simp_all add: predict_overflow_def call_backend_def bind_io_def emit_def raise_def ret_def)

lemma calculate_redirection_trace:
  "fst (calculate_redirection e sa pred dests) =
     [BackendCall ''llama-3.3-70b-versatile'' (PlanningPrompt sa pred dests)]"
  by (cases "backend e ''llama-3.3-70b-versatile'' (PlanningPrompt sa pred dests)")
     (simp_all add: calculate_redirection_def call_backend_def bind_io_def emit_def raise_def
        ret_def)

lemma calculate_redirection_Inr:
  assumes "calculate_redirection e sa pred dests = (t, Inr actions)"
  shows "\<exists>content. backend e ''llama-3.3-70b-versatile'' (PlanningPrompt sa pred dests)
            = Some content \<and> actions = parse_actions (loads e) content \<and>
          t = [BackendCall ''llama-3.3-70b-versatile'' (PlanningPrompt sa pred dests)]"
  using assms
  by (cases "backend e ''llama-3.3-70b-versatile'' (PlanningPrompt sa pred dests)")
     (simp_all add: calculate_redirection_def call_backend_def bind_io_def emit_def raise_def
        ret_def)

lemma parse_failure:
  assumes "extract_json content = Inr payload" "ld payload = None"
  shows "parse_prediction ld content =
           JObj [(''error'', JStr ''parsing_failed''), (''raw'', JStr payload)]"
    and "parse_actions ld content = []"
    and "parse_vision_analysis ld content = vision_fallback payload"
  using assms
  by (simp_all add: parse_prediction_def parse_actions_def try_parse_actions_def
      parse_vision_analysis_def load_json_def)

lemma process_camera_feed_no_valve:
  "filter is_valve_command (fst (process_camera_feed e path)) = []"
  by (cases "backend e ''llama-4-scout-preview'' (VisionPrompt path)")
     (simp_all add: process_camera_feed_def call_backend_def bind_io_def emit_def raise_def
        ret_def is_valve_command_def)

lemma analyze_sensor_data_props:
  "filter is_valve_command (fst (analyze_sensor_data e sd)) = []"
  "analyze_sensor_data e sd = (t, Inr a) \<Longrightarrow>
     a_requires_action a = (classify (water_level sd) \<noteq> NORMAL) \<and>
     a_water_level a = water_level sd \<and> a_flow_rate a = flow_rate sd \<and>
     a_location a = location sd"
proof -
  show "filter is_valve_command (fst (analyze_sensor_data e sd)) = []"
  proof (cases "image_path sd")
    case None
    then show ?thesis by (simp add: analyze_sensor_data_def Let_def ret_def)
  next
    case (Some path)
    obtain t1 r1 where p: "process_camera_feed e path = (t1, r1)"
      by (cases "process_camera_feed e path")
    with process_camera_feed_no_valve [of e path]
    have "filter is_valve_command t1 = []" by simp
    with Some p show ?thesis
      by (cases r1) (simp_all add: analyze_sensor_data_def Let_def ret_def bind_io_def)
  qed
next
  assume "analyze_sensor_data e sd = (t, Inr a)"
  then show "a_requires_action a = (classify (water_level sd) \<noteq> NORMAL) \<and>
     a_water_level a = water_level sd \<and> a_flow_rate a = flow_rate sd \<and>
     a_location a = location sd"
    by (cases "image_path sd"; cases "process_camera_feed e (the (image_path sd))";
        cases "snd (process_camera_feed e (the (image_path sd)))")
       (auto simp: analyze_sensor_data_def Let_def ret_def bind_io_def split: if_splits)
qed

lemma workflow_run:
  assumes run: "process_overflow_scenario e sd = (t, Inr r)"
  shows "\<exists>t0 a pred. analyze_sensor_data e sd = (t0, Inr a) \<and>
           sensor_analysis r = a \<and> prediction r = pred \<and>
           (if a_requires_action a
            then (\<exists>content.
                    backend e ''llama-3.3-70b-versatile''
                      (PlanningPrompt a pred available_destinations) = Some content \<and>
                    actions_taken r = parse_actions (loads e) content) \<and>
                 t = t0 @ [WeatherFetch (location sd), prediction_call sd] @
                     [planning_call a pred] @ map command_of (actions_taken r) @
                     [Notification a [''water_dept'', ''field_ops''],
                      DatabaseUpdate (sensor_id sd) (actions_taken r) (a_alert_level a)]
            else actions_taken r = [] \<and>
                 t = t0 @ [WeatherFetch (location sd), prediction_call sd])"
proof -
  from run obtain t0 a t1 where
    an: "analyze_sensor_data e sd = (t0, Inr a)" and
    r1: "bind_io (get_weather_forecast (location sd)) (\<lambda>weather_data.
           bind_io (predict_overflow e a weather_data) (\<lambda>pred.
           bind_io (lift (report_prediction pred)) (\<lambda>_.
             if a_requires_action a
             then bind_io (calculate_redirection e a pred available_destinations) (\<lambda>actions.
                  bind_io (execute_actions actions) (\<lambda>_.
                  bind_io (emit (Notification a [''water_dept'', ''field_ops''])) (\<lambda>_.
                  bind_io (emit (DatabaseUpdate (sensor_id sd) actions
                                   (a_alert_level a))) (\<lambda>_.
                    ret \<lparr>sensor_analysis = a, prediction = pred,
                         actions_taken = actions\<rparr>))))
             else ret \<lparr>sensor_analysis = a, prediction = pred, actions_taken = []\<rparr>)))
         = (t1, Inr r)" and
    t: "t = t0 @ t1"
    unfolding process_overflow_scenario_def by (rule bind_io_Inr)
  have props: "a_water_level a = water_level sd" "a_flow_rate a = flow_rate sd"
    "a_location a = location sd"
    using analyze_sensor_data_props(2) [OF an] by simp_all
  from r1 obtain t2 where
    r2: "bind_io (predict_overflow e a (weather_forecast (location sd))) (\<lambda>pred.
           bind_io (lift (report_prediction pred)) (\<lambda>_.
             if a_requires_action a
             then bind_io (calculate_redirection e a pred available_destinations) (\<lambda>actions.
                  bind_io (execute_actions actions) (\<lambda>_.
                  bind_io (emit (Notification a [''water_dept'', ''field_ops''])) (\<lambda>_.
                  bind_io (emit (DatabaseUpdate (sensor_id sd) actions
                                   (a_alert_level a))) (\<lambda>_.
                    ret \<lparr>sensor_analysis = a, prediction = pred,
                         actions_taken = actions\<rparr>))))
             else ret \<lparr>sensor_analysis = a, prediction = pred, actions_taken = []\<rparr>))
         = (t2, Inr r)" and
    t1: "t1 = [WeatherFetch (location sd)] @ t2"
    by (auto simp: get_weather_forecast_def emit_def ret_def bind_io_def
        split: prod.splits sum.splits)
  from r2 obtain tp pred t3 where
    pr: "predict_overflow e a (weather_forecast (location sd)) = (tp, Inr pred)" and
    r3: "bind_io (lift (report_prediction pred)) (\<lambda>_.
             if a_requires_action a
             then bind_io (calculate_redirection e a pred available_destinations) (\<lambda>actions.
                  bind_io (execute_actions actions) (\<lambda>_.
                  bind_io (emit (Notification a [''water_dept'', ''field_ops''])) (\<lambda>_.
                  bind_io (emit (DatabaseUpdate (sensor_id sd) actions
                                   (a_alert_level a))) (\<lambda>_.
                    ret \<lparr>sensor_analysis = a, prediction = pred,
                         actions_taken = actions\<rparr>))))
             else ret \<lparr>sensor_analysis = a, prediction = pred, actions_taken = []\<rparr>)
         = (t3, Inr r)" and
    t2: "t2 = tp @ t3"
    by (rule bind_io_Inr)
  have tp: "tp = [prediction_call sd]"
    using predict_overflow_trace [of e a "weather_forecast (location sd)"] pr props
    by (simp add: prediction_call_def)
  from r3 obtain t4 where
    r4: "(if a_requires_action a
             then bind_io (calculate_redirection e a pred available_destinations) (\<lambda>actions.
                  bind_io (execute_actions actions) (\<lambda>_.
                  bind_io (emit (Notification a [''water_dept'', ''field_ops''])) (\<lambda>_.
                  bind_io (emit (DatabaseUpdate (sensor_id sd) actions
                                   (a_alert_level a))) (\<lambda>_.
                    ret \<lparr>sensor_analysis = a, prediction = pred,
                         actions_taken = actions\<rparr>))))
             else ret \<lparr>sensor_analysis = a, prediction = pred, actions_taken = []\<rparr>)
         = (t4, Inr r)" and
    t3: "t3 = t4"
    by (rule bind_io_Inr) (simp add: lift_def)
  show ?thesis
  proof (cases "a_requires_action a")
    case False
    with r4 have "r = \<lparr>sensor_analysis = a, prediction = pred, actions_taken = []\<rparr>" "t4 = []"
      by (simp_all add: ret_def)
    with False an t t1 t2 t3 tp show ?thesis by simp
  next
    case True
    with r4 obtain tc actions t5 where
      cr: "calculate_redirection e a pred available_destinations = (tc, Inr actions)" and
      r5: "bind_io (execute_actions actions) (\<lambda>_.
             bind_io (emit (Notification a [''water_dept'', ''field_ops''])) (\<lambda>_.
             bind_io (emit (DatabaseUpdate (sensor_id sd) actions (a_alert_level a))) (\<lambda>_.
               ret \<lparr>sensor_analysis = a, prediction = pred, actions_taken = actions\<rparr>)))
           = (t5, Inr r)" and
      t4: "t4 = tc @ t5"
      by (simp only: if_True) (rule bind_io_Inr)
    from calculate_redirection_Inr [OF cr] obtain content where
      c: "backend e ''llama-3.3-70b-versatile''
            (PlanningPrompt a pred available_destinations) = Some content"
        "actions = parse_actions (loads e) content"
        "tc = [planning_call a pred]"
      by (auto simp: planning_call_def)
    from r5 have
      "r = \<lparr>sensor_analysis = a, prediction = pred, actions_taken = actions\<rparr>"
      "t5 = map command_of actions @
            [Notification a [''water_dept'', ''field_ops''],
             DatabaseUpdate (sensor_id sd) actions (a_alert_level a)]"
      by (simp_all add: execute_actions_trace bind_io_def emit_def ret_def)
    with True an t t1 t2 t3 t4 tp c show ?thesis by auto
  qed
qed

lemma filter_valve_map_command [simp]:
  "filter is_valve_command (map command_of as) = map command_of as"
  by (induction as) (simp_all add: command_of_def is_valve_command_def)

text \<open>
  C1, as the code has it: when the planning reply does not parse as JSON, the planner
  returns the empty list and no fallback action is built; a run that completes then ends
  with zero actions and sends no valve command, whatever the alert level.
\<close>

theorem workflow_no_fallback_action:
  assumes run: "process_overflow_scenario e sd = (t, Inr r)"
    and reply: "\<forall>p. backend e ''llama-3.3-70b-versatile'' p = Some content"
    and ex: "extract_json content = Inr payload"
    and fail: "loads e payload = None"
  shows "actions_taken r = [] \<and> filter is_valve_command t = []"
proof -
  from workflow_run [OF run] obtain t0 a pred where
    an: "analyze_sensor_data e sd = (t0, Inr a)" and
    w: "if a_requires_action a
        then (\<exists>content.
                backend e ''llama-3.3-70b-versatile''
                  (PlanningPrompt a pred available_destinations) = Some content \<and>
                actions_taken r = parse_actions (loads e) content) \<and>
             t = t0 @ [WeatherFetch (location sd), prediction_call sd] @
                 [planning_call a pred] @ map command_of (actions_taken r) @
                 [Notification a [''water_dept'', ''field_ops''],
                  DatabaseUpdate (sensor_id sd) (actions_taken r) (a_alert_level a)]
        else actions_taken r = [] \<and>
             t = t0 @ [WeatherFetch (location sd), prediction_call sd]"
    by blast
  have t0: "filter is_valve_command t0 = []"
    using analyze_sensor_data_props(1) [of e sd] an by simp
  have empty: "actions_taken r = []"
  proof (cases "a_requires_action a")
    case True
    with w reply have "actions_taken r = parse_actions (loads e) content" by auto
    with parse_failure(2) [of content payload "loads e"] ex fail show ?thesis by simp
  next
    case False
    with w show ?thesis by simp
  qed
  moreover have "filter is_valve_command t = []"
    using w t0 empty
    by (auto simp: is_valve_command_def prediction_call_def planning_call_def
        split: if_splits)
  ultimately show ?thesis by simp
qed

text \<open>
  C6, as the code has it: for a reading classified Normal, a run that completes ends with
  an empty action list and, after the analysis of the reading, performs exactly the
  forecast fetch and the prediction call; no planning call, valve command, notification or
  database update is made.
\<close>

theorem normal_run_skips_planning:
  assumes run: "process_overflow_scenario e sd = (t, Inr r)"
    and normal: "classify (water_level sd) = NORMAL"
  shows "actions_taken r = [] \<and>
         t = fst (analyze_sensor_data e sd) @
             [WeatherFetch (location sd), prediction_call sd]"
proof -
  from workflow_run [OF run] obtain t0 a pred where
    an: "analyze_sensor_data e sd = (t0, Inr a)" and
    w: "if a_requires_action a
        then (\<exists>content.
                backend e ''llama-3.3-70b-versatile''
                  (PlanningPrompt a pred available_destinations) = Some content \<and>
                actions_taken r = parse_actions (loads e) content) \<and>
             t = t0 @ [WeatherFetch (location sd), prediction_call sd] @
                 [planning_call a pred] @ map command_of (actions_taken r) @
                 [Notification a [''water_dept'', ''field_ops''],
                  DatabaseUpdate (sensor_id sd) (actions_taken r) (a_alert_level a)]
        else actions_taken r = [] \<and>
             t = t0 @ [WeatherFetch (location sd), prediction_call sd]"
    by blast
  have "\<not> a_requires_action a"
    using analyze_sensor_data_props(2) [OF an] normal by simp
  with w an show ?thesis by simp
qed

text \<open>
  C4, as the code has it: when the prediction reply does not parse as JSON, the
  prediction stage makes its single backend call and returns the two-entry dictionary
  with error "parsing_failed" and raw equal to the text that was handed to the JSON
  parser, whatever the alert level; it holds no probability and no degraded flag.
\<close>

theorem prediction_failure_dictionary:
  assumes "backend e ''llama-3.1-8b-instant''
             (PredictionPrompt (a_water_level cd) (a_flow_rate cd) (a_location cd) w)
           = Some content"
    and "extract_json content = Inr payload"
    and "loads e payload = None"
  shows "predict_overflow e cd w =
     ([BackendCall ''llama-3.1-8b-instant''
         (PredictionPrompt (a_water_level cd) (a_flow_rate cd) (a_location cd) w)],
      Inr (JObj [(''error'', JStr ''parsing_failed''), (''raw'', JStr payload)]))"
  using predict_overflow_eq [OF assms(1)] parse_failure(1) [of content payload "loads e"]
    assms(2,3)
  by simp

text \<open>
  C5, as the code has it: the prediction and planning stages call the backend exactly
  once and the vision stage at most once, whatever the reply; nothing is retried. When
  the text extracted from a reply does not parse, the prediction parser returns the
  dictionary with error "parsing_failed" and the extracted text under raw, the planning
  parser returns the empty list, and the vision parser returns water_level 0,
  overflow_detected false, urgency "normal" and the extracted text under raw_analysis.
\<close>

theorem no_retry_and_failure_values:
  "length (filter is_backend_call (fst (predict_overflow e cd w))) = 1 \<and>
   length (filter is_backend_call (fst (calculate_redirection e sa pred dests))) = 1 \<and>
   length (filter is_backend_call (fst (process_camera_feed e path))) \<le> 1 \<and>
   (extract_json content = Inr payload \<and> ld payload = None \<longrightarrow>
      parse_prediction ld content =
        JObj [(''error'', JStr ''parsing_failed''), (''raw'', JStr payload)] \<and>
      parse_actions ld content = [] \<and>
      parse_vision_analysis ld content =
        JObj [(''water_level'', JInt 0), (''overflow_detected'', JBool False),
              (''urgency'', JStr ''normal''), (''raw_analysis'', JStr payload)])"
proof -
  have "length (filter is_backend_call (fst (process_camera_feed e path))) \<le> 1"
    by (cases "backend e ''llama-4-scout-preview'' (VisionPrompt path)")
       (simp_all add: process_camera_feed_def call_backend_def bind_io_def emit_def raise_def
          ret_def is_backend_call_def)
  then show ?thesis
    using parse_failure [of content payload ld]
    by (simp add: predict_overflow_trace calculate_redirection_trace is_backend_call_def
        vision_fallback_def)
qed

text \<open>
  C8, as the code has it: a reading with water level 92.5 and flow rate 450 (and no
  image) is classified Warning, with requires_action true.
\<close>

theorem scenario_a_is_warning:
  "classify 92.5 = WARNING \<and>
   analyze_sensor_data e (sd\<lparr>water_level := 92.5, flow_rate := 450, image_path := None\<rparr>) =
     ([], Inr \<lparr>a_sensor_id = sensor_id sd, a_location = location sd,
               a_alert_level = ''warning'', a_water_level = 92.5, a_flow_rate = 450,
               a_requires_action = True, a_timestamp = timestamp sd,
               a_vision_analysis = None\<rparr>)"
  by (simp add: analyze_sensor_data_def classify_def alert_threshold_def ret_def)

section \<open>Sample runs\<close>

lemma plain_env_eval:
  "backend plain_env m p = Some plain_reply" "loads plain_env = sample_loads"
  by (simp_all add: plain_env_def)

lemma plain_prediction:
  "parse_prediction sample_loads plain_reply =
     JObj [(''error'', JStr ''parsing_failed''), (''raw'', JStr plain_reply)]"
  using parse_failure(1) [of plain_reply plain_reply sample_loads]
  by (simp add: extract_samples sample_loads_eval)

lemma plain_actions: "parse_actions sample_loads plain_reply = []"
  using parse_failure(2) [of plain_reply plain_reply sample_loads]
  by (simp add: extract_samples sample_loads_eval)

lemma plain_run:
  "process_overflow_scenario plain_env (reading w) =
     (if classify w \<noteq> NORMAL
      then ([WeatherFetch ''Community Tank'', prediction_call (reading w),
             planning_call
               \<lparr>a_sensor_id = ''WS_TANK_001'', a_location = ''Community Tank'',
                a_alert_level = alert_value (classify w), a_water_level = w,
                a_flow_rate = 450, a_requires_action = True,
                a_timestamp = ''2025-01-01T00:00:00'', a_vision_analysis = None\<rparr>
               (JObj [(''error'', JStr ''parsing_failed''), (''raw'', JStr plain_reply)]),
             Notification
               \<lparr>a_sensor_id = ''WS_TANK_001'', a_location = ''Community Tank'',
                a_alert_level = alert_value (classify w), a_water_level = w,
                a_flow_rate = 450, a_requires_action = True,
                a_timestamp = ''2025-01-01T00:00:00'', a_vision_analysis = None\<rparr>
               [''water_dept'', ''field_ops''],
             DatabaseUpdate ''WS_TANK_001'' [] (alert_value (classify w))],
            Inr \<lparr>sensor_analysis =
                   \<lparr>a_sensor_id = ''WS_TANK_001'', a_location = ''Community Tank'',
                    a_alert_level = alert_value (classify w), a_water_level = w,
                    a_flow_rate = 450, a_requires_action = True,
                    a_timestamp = ''2025-01-01T00:00:00'', a_vision_analysis = None\<rparr>,
                  prediction =
                    JObj [(''error'', JStr ''parsing_failed''), (''raw'', JStr plain_reply)],
                  actions_taken = []\<rparr>)
      else ([WeatherFetch ''Community Tank'', prediction_call (reading w)],
            Inr \<lparr>sensor_analysis =
                   \<lparr>a_sensor_id = ''WS_TANK_001'', a_location = ''Community Tank'',
                    a_alert_level = alert_value (classify w), a_water_level = w,
                    a_flow_rate = 450, a_requires_action = False,
                    a_timestamp = ''2025-01-01T00:00:00'', a_vision_analysis = None\<rparr>,
                  prediction =
                    JObj [(''error'', JStr ''parsing_failed''), (''raw'', JStr plain_reply)],
                  actions_taken = []\<rparr>))"
  by (simp add: process_overflow_scenario_def analyze_sensor_data_def reading_def
      get_weather_forecast_def predict_overflow_def calculate_redirection_def
      call_backend_def plain_env_eval plain_prediction plain_actions
      report_prediction_def lift_def bind_io_def emit_def ret_def
      prediction_call_def planning_call_def)

lemma classify_samples:
  "classify 97 = CRITICAL" "classify 30 = NORMAL" "classify 92.5 = WARNING"
  by (simp_all add: classify_def alert_threshold_def)

lemma reading_fields:
  "water_level (reading w) = w" "flow_rate (reading w) = 450"
  "location (reading w) = ''Community Tank''" "image_path (reading w) = None"
  "sensor_id (reading w) = ''WS_TANK_001''"
  by (simp_all add: reading_def)

lemma analyze_reading:
  "analyze_sensor_data e (reading w) =
     ([], Inr \<lparr>a_sensor_id = ''WS_TANK_001'', a_location = ''Community Tank'',
               a_alert_level = alert_value (classify w), a_water_level = w,
               a_flow_rate = 450, a_requires_action = (classify w \<noteq> NORMAL),
               a_timestamp = ''2025-01-01T00:00:00'', a_vision_analysis = None\<rparr>)"
  by (simp add: analyze_sensor_data_def reading_def ret_def Let_def)


theorem workflow_no_fallback_action_witness:
  "\<exists>t r. process_overflow_scenario plain_env (reading 97) = (t, Inr r) \<and>
         actions_taken r = [] \<and> filter is_valve_command t = []"
proof -
  obtain t r where run: "process_overflow_scenario plain_env (reading 97) = (t, Inr r)"
    by (simp add: plain_run classify_samples)
  have "actions_taken r = [] \<and> filter is_valve_command t = []"
    using workflow_no_fallback_action [of plain_env "reading 97" t r plain_reply plain_reply]
      run
    by (simp add: plain_env_eval extract_samples sample_loads_eval)
  with run show ?thesis by blast
qed

text \<open>C1 as stated fails: a Critical reading whose planning reply is plain text ends
  with zero actions and no valve command.\<close>

theorem critical_run_no_action_counterexample:
  "classify (water_level (reading 97)) = CRITICAL \<and>
   map_sum id actions_taken (snd (process_overflow_scenario plain_env (reading 97))) = Inr [] \<and>
   filter is_valve_command (fst (process_overflow_scenario plain_env (reading 97))) = [] \<and>
   parse_actions sample_loads plain_reply = []"
  by (simp add: plain_run classify_samples plain_actions reading_fields is_valve_command_def
      prediction_call_def planning_call_def)

theorem normal_run_skips_planning_witness:
  "\<exists>t r. process_overflow_scenario plain_env (reading 30) = (t, Inr r) \<and>
         actions_taken r = [] \<and>
         t = [WeatherFetch ''Community Tank'', prediction_call (reading 30)]"
proof -
  obtain t r where run: "process_overflow_scenario plain_env (reading 30) = (t, Inr r)"
    by (simp add: plain_run classify_samples)
  have "actions_taken r = [] \<and>
        t = fst (analyze_sensor_data plain_env (reading 30)) @
            [WeatherFetch (location (reading 30)), prediction_call (reading 30)]"
    using normal_run_skips_planning [of plain_env "reading 30" t r] run
    by (simp add: classify_samples reading_fields)
  then have "actions_taken r = [] \<and>
        t = [WeatherFetch ''Community Tank'', prediction_call (reading 30)]"
    by (simp add: analyze_reading reading_fields)
  with run show ?thesis by blast
qed

text \<open>C6 as stated fails: for a Normal reading the forecast is fetched and the
  prediction backend is called.\<close>

theorem normal_run_predicts_counterexample:
  "classify (water_level (reading 30)) = NORMAL \<and>
   fst (process_overflow_scenario plain_env (reading 30)) =
     [WeatherFetch ''Community Tank'',
      BackendCall ''llama-3.1-8b-instant''
        (PredictionPrompt 30 450 ''Community Tank'' (weather_forecast ''Community Tank''))]"
  by (simp add: plain_run classify_samples reading_fields prediction_call_def)

theorem prediction_failure_dictionary_witness:
  "predict_overflow plain_env sample_analysis (weather_forecast ''Community Tank'') =
     ([BackendCall ''llama-3.1-8b-instant''
         (PredictionPrompt 97 450 ''Community Tank'' (weather_forecast ''Community Tank''))],
      Inr (JObj [(''error'', JStr ''parsing_failed''), (''raw'', JStr plain_reply)]))"
  using prediction_failure_dictionary [of plain_env sample_analysis
          "weather_forecast ''Community Tank''" plain_reply plain_reply]
  by (simp add: plain_env_eval extract_samples sample_loads_eval sample_analysis_def)

text \<open>C4 as stated fails: for a Critical alert and a reply that does not parse, the
  result holds no probability and no degraded flag.\<close>

theorem prediction_no_default_counterexample:
  "a_alert_level sample_analysis = ''critical'' \<and>
   snd (predict_overflow plain_env sample_analysis (weather_forecast ''Community Tank'')) =
     Inr (parse_prediction sample_loads plain_reply) \<and>
   getitem (parse_prediction sample_loads plain_reply) ''overflow_probability_6h'' =
     Inl KeyError \<and>
   getitem (parse_prediction sample_loads plain_reply) ''overflow_probability_12h'' =
     Inl KeyError \<and>
   getitem (parse_prediction sample_loads plain_reply) ''overflow_probability_24h'' =
     Inl KeyError \<and>
   getitem (parse_prediction sample_loads plain_reply) ''degraded'' = Inl KeyError"
  using predict_overflow_eq [of plain_env sample_analysis
          "weather_forecast ''Community Tank''" plain_reply]
  by (simp add: plain_env_eval plain_prediction sample_analysis_def)

theorem no_retry_and_failure_values_witness:
  "parse_prediction sample_loads plain_reply =
     JObj [(''error'', JStr ''parsing_failed''), (''raw'', JStr plain_reply)] \<and>
   parse_actions sample_loads plain_reply = [] \<and>
   parse_vision_analysis sample_loads plain_reply =
     JObj [(''water_level'', JInt 0), (''overflow_detected'', JBool False),
           (''urgency'', JStr ''normal''), (''raw_analysis'', JStr plain_reply)]"
  using no_retry_and_failure_values [of plain_env sample_analysis JNull sample_analysis JNull
          "[]" "''tank.jpg''" plain_reply plain_reply sample_loads]
  by (simp add: extract_samples sample_loads_eval)

text \<open>C5 as stated fails: a reply that does not parse is not retried, the vision parser
  then reports a water level of 0 and the planning parser drops the reply text.\<close>

theorem single_call_counterexample:
  "sample_loads plain_reply = None \<and>
   length (filter is_backend_call
     (fst (predict_overflow plain_env sample_analysis
             (weather_forecast ''Community Tank'')))) = 1 \<and>
   length (filter is_backend_call
     (fst (calculate_redirection plain_env sample_analysis JNull
             available_destinations))) = 1 \<and>
   getitem (parse_vision_analysis sample_loads plain_reply) ''water_level'' = Inr (JInt 0) \<and>
   parse_actions sample_loads plain_reply = []"
  using parse_failure(3) [of plain_reply plain_reply sample_loads]
  by (simp add: predict_overflow_trace calculate_redirection_trace is_backend_call_def
      sample_loads_eval extract_samples plain_actions vision_fallback_def)

text \<open>C8 as stated fails: the level 92.5 is Warning, not Critical.\<close>

theorem scenario_a_counterexample:
  "classify (water_level (reading 92.5)) = WARNING \<and>
   classify (water_level (reading 92.5)) \<noteq> CRITICAL \<and>
   map_sum id a_alert_level (snd (analyze_sensor_data plain_env (reading 92.5))) =
     Inr ''warning''"
  by (simp add: reading_fields analyze_reading classify_def alert_threshold_def)

section \<open>The extraction step\<close>

lemma starts_with_append:
  "starts_with sep xs \<Longrightarrow> starts_with sep (xs @ ys)"
proof -
  assume h: "starts_with sep xs"
  then have "length (take (length sep) xs) = length sep"
    by (simp add: starts_with_def)
  then have "length sep \<le> length xs" by simp
  with h show ?thesis by (simp add: starts_with_def)
qed

lemma split_at_None_iff:
  "split_at sep s = None \<longleftrightarrow> \<not> contains sep s"
  by (induction s) (auto split: option.splits)

lemma split_at_Some:
  "split_at sep s = Some (a, b) \<Longrightarrow> s = a @ sep @ b"
proof (induction s arbitrary: a)
  case Nil
  then show ?case by (simp split: if_splits)
next
  case (Cons c cs)
  show ?case
  proof (cases "starts_with sep (c # cs)")
    case True
    with Cons.prems have "a = []" "b = drop (length sep) (c # cs)" by simp_all
    moreover from True have "take (length sep) (c # cs) = sep" by (simp add: starts_with_def)
    ultimately show ?thesis by (metis append_Nil append_take_drop_id)
  next
    case False
    with Cons.prems obtain a' where a': "split_at sep cs = Some (a', b)" "a = c # a'"
      by (auto split: option.splits)
    with Cons.IH show ?thesis by simp
  qed
qed

lemma split_at_first:
  "split_at sep s = Some (a, b) \<Longrightarrow> k < length a \<Longrightarrow> \<not> starts_with sep (drop k s)"
proof (induction s arbitrary: a k)
  case Nil
  then show ?case by (simp split: if_splits)
next
  case (Cons c cs)
  show ?case
  proof (cases "starts_with sep (c # cs)")
    case True
    with Cons.prems show ?thesis by simp
  next
    case False
    with Cons.prems obtain a' where a': "split_at sep cs = Some (a', b)" "a = c # a'"
      by (auto split: option.splits)
    show ?thesis
    proof (cases k)
      case 0
      with False show ?thesis by simp
    next
      case (Suc k')
      with Cons.prems a' have "k' < length a'" by simp
      with Cons.IH a' Suc show ?thesis by simp
    qed
  qed
qed

lemma split_at_prefix_clean:
  "split_at sep s = Some (a, b) \<Longrightarrow> sep \<noteq> [] \<Longrightarrow> \<not> contains sep a"
proof (induction s arbitrary: a)
  case Nil
  then show ?case by (simp split: if_splits)
next
  case (Cons c cs)
  show ?case
  proof (cases "starts_with sep (c # cs)")
    case True
    with Cons.prems show ?thesis by simp
  next
    case False
    with Cons.prems obtain a' where a': "split_at sep cs = Some (a', b)" "a = c # a'"
      by (auto split: option.splits)
    from split_at_Some [OF a'(1)] have cs: "c # cs = (c # a') @ sep @ b" by simp
    have "\<not> starts_with sep (c # a')"
      using False starts_with_append [of sep "c # a'" "sep @ b"] cs by auto
    moreover have "\<not> contains sep a'" using Cons.IH a' Cons.prems by simp
    ultimately show ?thesis using a' by simp
  qed
qed

lemma before_clean: "sep \<noteq> [] \<Longrightarrow> \<not> contains sep (before sep s)"
proof (cases "split_at sep s")
  case None
  then have "\<not> contains sep s" using split_at_None_iff [of sep s] by simp
  with None show ?thesis by (simp add: before_def)
next
  case (Some p)
  assume ne: "sep \<noteq> []"
  obtain a b where p: "p = (a, b)" by (cases p)
  with Some ne have "\<not> contains sep a" using split_at_prefix_clean [of sep s a b] by simp
  with Some p show ?thesis by (simp add: before_def)
qed

lemma before_cases:
  "before sep s = s \<or> (\<exists>post. s = before sep s @ sep @ post)"
  by (cases "split_at sep s") (auto simp: before_def dest: split_at_Some)

lemma split_py_hd: "sep \<noteq> [] \<Longrightarrow> index (split_py sep s) 0 = Inr (before sep s)"
  by (cases "split_at sep s") (auto simp: index_def before_def)

lemma split_py_second:
  "sep \<noteq> [] \<Longrightarrow> split_at sep s = Some (a, b) \<Longrightarrow>
   index (split_py sep s) 1 = Inr (before sep b)"
  by (cases "split_at sep b") (auto simp: index_def before_def)

lemma extract_json_split:
  "extract_json content =
     (case split_at ''```json'' content of
        None \<Rightarrow> Inr content
      | Some (pre, rest) \<Rightarrow> Inr (before ''```'' (before ''```json'' rest)))"
proof (cases "split_at ''```json'' content")
  case None
  then have "\<not> contains ''```json'' content"
    using split_at_None_iff [of "''```json''" content] by simp
  then have "extract_json content = Inr content" by (simp add: extract_json_def)
  with None show ?thesis by simp
next
  case (Some p)
  obtain pre rest where p: "p = (pre, rest)" by (cases p)
  from Some have c: "contains ''```json'' content"
    using split_at_None_iff [of "''```json''" content] by simp
  have "index (split_py ''```json'' content) 1 = Inr (before ''```json'' rest)"
    using split_py_second [of "''```json''" content pre rest] Some p by simp
  moreover have "index (split_py ''```'' (before ''```json'' rest)) 0 =
      Inr (before ''```'' (before ''```json'' rest))"
    by (rule split_py_hd) simp
  ultimately have "extract_json content = Inr (before ''```'' (before ''```json'' rest))"
    using c by (simp add: extract_json_def del: split_py.simps)
  with Some p show ?thesis by simp
qed

text \<open>
  C9: when the reply does not contain the marker of a fenced JSON block, the whole reply
  is handed to the JSON parser. When it does, the text handed over is the inner content of
  the block opened by the first such marker: it follows that marker directly, contains no
  fence, and is ended by a closing fence or by the end of the reply. The prediction and
  planning parsers parse exactly that text.
\<close>

theorem extract_json_fenced_block:
  "(\<not> contains ''```json'' content \<longrightarrow> extract_json content = Inr content) \<and>
   (contains ''```json'' content \<longrightarrow>
      (\<exists>pre inner. extract_json content = Inr inner \<and>
         (\<forall>k<length pre. \<not> starts_with ''```json'' (drop k content)) \<and>
         \<not> contains ''```'' inner \<and>
         (content = pre @ ''```json'' @ inner \<or>
          (\<exists>post. content = pre @ ''```json'' @ inner @ ''```'' @ post)))) \<and>
   (extract_json content = Inr payload \<and> ld payload = Some j \<longrightarrow>
      parse_prediction ld content = j \<and>
      parse_actions ld content =
        (case bind_err (iterate (unwrap_actions j)) (traverse make_action) of
           Inl e \<Rightarrow> [] | Inr as \<Rightarrow> as))"
proof (intro conjI impI)
  assume "\<not> contains ''```json'' content"
  then show "extract_json content = Inr content" by (simp add: extract_json_def)
next
  assume c: "contains ''```json'' content"
  then obtain pre rest where sp: "split_at ''```json'' content = Some (pre, rest)"
    using split_at_None_iff [of "''```json''" content] by (cases "split_at ''```json'' content") auto
  define seg where "seg = before ''```json'' rest"
  define inner where "inner = before ''```'' seg"
  have ex: "extract_json content = Inr inner"
    using sp by (simp add: extract_json_split seg_def inner_def)
  have content: "content = pre @ ''```json'' @ rest"
    using split_at_Some [OF sp] .
  have first: "\<forall>k<length pre. \<not> starts_with ''```json'' (drop k content)"
    using split_at_first [OF sp] by blast
  have clean: "\<not> contains ''```'' inner"
    unfolding inner_def by (rule before_clean) simp
  have fence: "''```json'' = ''```'' @ ''json''" by simp
  have shape: "content = pre @ ''```json'' @ inner \<or>
      (\<exists>post. content = pre @ ''```json'' @ inner @ ''```'' @ post)"
  proof -
    from before_cases [of "''```json''" rest]
    consider "seg = rest" | post1 where "rest = seg @ ''```json'' @ post1"
      unfolding seg_def by blast
    then show ?thesis
    proof cases
      case 1
      from before_cases [of "''```''" seg]
      consider "inner = seg" | post2 where "seg = inner @ ''```'' @ post2"
        unfolding inner_def by blast
      then show ?thesis
      proof cases
        case 1
        with \<open>seg = rest\<close> content show ?thesis by simp
      next
        case 2
        with \<open>seg = rest\<close> content have "content = pre @ ''```json'' @ inner @ ''```'' @ post2"
          by simp
        then show ?thesis by blast
      qed
    next
      case 2
      from before_cases [of "''```''" seg]
      consider "inner = seg" | post2 where "seg = inner @ ''```'' @ post2"
        unfolding inner_def by blast
      then show ?thesis
      proof cases
        case 1
        with 2 content have
          "content = pre @ ''```json'' @ inner @ ''```'' @ (''json'' @ post1)"
          by simp
        then show ?thesis by blast
      next
        case 2
        with \<open>rest = seg @ ''```json'' @ post1\<close> content have
          "content = pre @ ''```json'' @ inner @ ''```'' @ (post2 @ ''```json'' @ post1)"
          by simp
        then show ?thesis by blast
      qed
    qed
  qed
  from ex first clean shape
  show "\<exists>pre inner. extract_json content = Inr inner \<and>
         (\<forall>k<length pre. \<not> starts_with ''```json'' (drop k content)) \<and>
         \<not> contains ''```'' inner \<and>
         (content = pre @ ''```json'' @ inner \<or>
          (\<exists>post. content = pre @ ''```json'' @ inner @ ''```'' @ post))"
    by blast
next
  assume h: "extract_json content = Inr payload \<and> ld payload = Some j"
  then show "parse_prediction ld content = j"
    by (simp add: parse_prediction_def load_json_def)
next
  assume h: "extract_json content = Inr payload \<and> ld payload = Some j"
  then show "parse_actions ld content =
        (case bind_err (iterate (unwrap_actions j)) (traverse make_action) of
           Inl e \<Rightarrow> [] | Inr as \<Rightarrow> as)"
    by (simp add: parse_actions_def try_parse_actions_def load_json_def)
qed

lemma fenced_reply_eval:
  "contains ''```json'' fenced_reply" "extract_json fenced_reply = Inr ''[]''"
  "sample_loads ''[]'' = Some (JArr [])"
  by (simp_all add: fenced_reply_def extract_json_split before_def starts_with_def
      sample_loads_def plan_reply_def partial_reply_def single_reply_def wrapped_reply_def
      pair_reply_def)

theorem extract_json_fenced_block_witness:
  "contains ''```json'' fenced_reply \<and> extract_json fenced_reply = Inr ''[]'' \<and>
   parse_prediction sample_loads fenced_reply = JArr [] \<and>
   parse_actions sample_loads fenced_reply = [] \<and>
   \<not> contains ''```json'' plain_reply \<and> extract_json plain_reply = Inr plain_reply"
  using extract_json_fenced_block [of fenced_reply "''[]''" sample_loads "JArr []"]
    extract_json_fenced_block [of plain_reply plain_reply sample_loads JNull]
  by (simp add: fenced_reply_eval no_fence_samples)

end
